theory Spec2Isabelle
  imports Main
begin

section \<open>Values, truthiness and paths\<close>

text \<open>
  The stores of \<^verbatim>\<open>create-form-action.ts\<close> hold JavaScript values: the data tree and its
  shadow trees (touched, errors, warnings) are nested objects and arrays with primitive
  leaves. An object is an association list (the first binding of a key is the one that
  counts), an array is a list. Numbers are the integers; NaN is not a value of \<open>val\<close>.
\<close>

datatype val =
    VUndef
  | VNull
  | VBool bool
  | VNum int
  | VStr string
  | VArr "val list"
  | VObj "(string \<times> val) list"

text \<open>JavaScript truthiness, as used by \<^verbatim>\<open>if (x)\<close> and \<^verbatim>\<open>!!x\<close>.\<close>

fun truthy :: "val \<Rightarrow> bool" where
  "truthy VUndef = False"
| "truthy VNull = False"
| "truthy (VBool b) = b"
| "truthy (VNum n) = (n \<noteq> 0)"
| "truthy (VStr s) = (s \<noteq> [])"
| "truthy (VArr xs) = True"
| "truthy (VObj kvs) = True"

text \<open>
  A path is an ordered sequence of string and integer segments (spec, section 3).
\<close>

datatype seg = Key string | Idx nat

type_synonym path = "seg list"

section \<open>Tree helpers of the common package\<close>

text \<open>
  The helpers \<^verbatim>\<open>_get\<close>, \<^verbatim>\<open>_set\<close>, \<^verbatim>\<open>_unset\<close>, \<^verbatim>\<open>_merge\<close>, \<^verbatim>\<open>_defaultsDeep\<close>,
  \<^verbatim>\<open>deepSet\<close> and \<^verbatim>\<open>deepSome\<close> are imported from \<^verbatim>\<open>@felte/common\<close>; their code is
  not part of the analysed file. Each is modelled from the words of the specification.
  An identifier cannot start with an underscore, so \<^verbatim>\<open>_get\<close> is \<open>felte_get\<close>, and so on.
\<close>

text \<open>
  Modelled from the spec: \<^verbatim>\<open>_get\<close> (missing: \<^verbatim>\<open>@felte/common\<close>). It reads the value
  that a path locates inside a tree (glossary: "ordered key sequence locating a value
  inside the nested data tree"); a path that leads nowhere reads \<open>undefined\<close>.
\<close>

fun felte_get :: "val \<Rightarrow> path \<Rightarrow> val" where
  "felte_get v [] = v"
| "felte_get (VObj kvs) (Key k # p) =
     (case map_of kvs k of None \<Rightarrow> VUndef | Some x \<Rightarrow> felte_get x p)"
| "felte_get (VArr xs) (Idx i # p) =
     (if i < length xs then felte_get (xs ! i) p else VUndef)"
| "felte_get v (s # p) = VUndef"

text \<open>The fields of an object and the items of an array; anything else has none.\<close>

fun fields :: "val \<Rightarrow> (string \<times> val) list" where
  "fields (VObj kvs) = kvs"
| "fields v = []"

fun items :: "val \<Rightarrow> val list" where
  "items (VArr xs) = xs"
| "items v = []"

text \<open>Writing one key of an object: the first binding is replaced, a new key is appended.\<close>

fun put :: "string \<Rightarrow> val \<Rightarrow> (string \<times> val) list \<Rightarrow> (string \<times> val) list" where
  "put k x [] = [(k, x)]"
| "put k x ((k', y) # kvs) = (if k = k' then (k, x) # kvs else (k', y) # put k x kvs)"

text \<open>
  Writing one index of an array: JavaScript extends the array with \<open>undefined\<close> up to
  the index when it is out of range.
\<close>

definition put_at :: "nat \<Rightarrow> val \<Rightarrow> val list \<Rightarrow> val list" where
  "put_at i x xs = (xs @ replicate (Suc i - length xs) VUndef)[i := x]"

text \<open>
  Modelled from the spec: \<^verbatim>\<open>_set\<close> (missing: \<^verbatim>\<open>@felte/common\<close>). A path-scoped write
  (section 3: the engine "writes via path-scoped update"): the value is stored at the
  path, the containers on the way are created when they are missing, and everything
  off the path is kept.
\<close>

fun felte_set :: "val \<Rightarrow> path \<Rightarrow> val \<Rightarrow> val" where
  "felte_set v [] x = x"
| "felte_set v (Key k # p) x =
     VObj (put k (felte_set (felte_get v [Key k]) p x) (fields v))"
| "felte_set v (Idx i # p) x =
     VArr (put_at i (felte_set (felte_get v [Idx i]) p x) (items v))"

text \<open>
  Modelled from the spec: \<^verbatim>\<open>_unset\<close> (missing: \<^verbatim>\<open>@felte/common\<close>). It removes the
  entry a path locates ("unset its path", section 4.4); when the entry is a member of a
  sequence the later members shift down (section 4.4: "array-index shift semantics when
  list rows are removed"). A path that leads nowhere leaves the tree as it is.
\<close>

fun drop_at :: "nat \<Rightarrow> 'a list \<Rightarrow> 'a list" where
  "drop_at i xs = take i xs @ drop (Suc i) xs"

fun felte_unset :: "val \<Rightarrow> path \<Rightarrow> val" where
  "felte_unset v [] = v"
| "felte_unset (VObj kvs) [Key k] = VObj (filter (\<lambda>(k', y). k' \<noteq> k) kvs)"
| "felte_unset (VArr xs) [Idx i] = VArr (drop_at i xs)"
| "felte_unset (VObj kvs) (Key k # p) =
     (case map_of kvs k of
        None \<Rightarrow> VObj kvs
      | Some y \<Rightarrow> VObj (put k (felte_unset y p) kvs))"
| "felte_unset (VArr xs) (Idx i # p) =
     (if i < length xs then VArr (xs[i := felte_unset (xs ! i) p]) else VArr xs)"
| "felte_unset v (s # p) = v"

text \<open>
  Modelled from the spec: \<^verbatim>\<open>deepSet\<close> (missing: \<^verbatim>\<open>@felte/common\<close>). It gives a tree of
  the same shape in which every leaf holds the given value ("marks every path in Touched
  as true", section 4.5; "a false-initialized version", section 4.4).
\<close>

fun deepSet :: "val \<Rightarrow> val \<Rightarrow> val" where
  "deepSet (VObj kvs) x = VObj (map (\<lambda>(k, v). (k, deepSet v x)) kvs)"
| "deepSet (VArr xs) x = VArr (map (\<lambda>v. deepSet v x) xs)"
| "deepSet v x = x"

text \<open>
  Modelled from the spec: \<^verbatim>\<open>deepSome\<close> (missing: \<^verbatim>\<open>@felte/common\<close>). It says whether
  the predicate holds of the value at some path of the tree ("any non-empty error at any
  path", section 4.5).
\<close>

fun deepSome :: "val \<Rightarrow> (val \<Rightarrow> bool) \<Rightarrow> bool" where
  "deepSome (VObj kvs) pred = list_ex (\<lambda>(k, v). deepSome v pred) kvs"
| "deepSome (VArr xs) pred = list_ex (\<lambda>v. deepSome v pred) xs"
| "deepSome v pred = pred v"

text \<open>
  Modelled from the spec: \<^verbatim>\<open>_defaultsDeep\<close> (missing: \<^verbatim>\<open>@felte/common\<close>). A deep merge
  in which the first tree wins and the second only fills gaps ("store wins on conflicts,
  defaults only fill gaps", section 4.4): objects are merged key by key, sequences
  position by position, and a leaf of the first tree is kept unless it is \<open>undefined\<close>.
\<close>

fun felte_defaultsDeep :: "val \<Rightarrow> val \<Rightarrow> val"
  and defaultsFields :: "(string \<times> val) list \<Rightarrow> (string \<times> val) list \<Rightarrow> (string \<times> val) list"
  and defaultsItems :: "val list \<Rightarrow> val list \<Rightarrow> val list" where
  "felte_defaultsDeep VUndef d = d"
| "felte_defaultsDeep (VObj kvs) d =
     (case d of
        VObj dkvs \<Rightarrow>
          VObj (defaultsFields kvs dkvs @ filter (\<lambda>(k, y). map_of kvs k = None) dkvs)
      | _ \<Rightarrow> VObj kvs)"
| "felte_defaultsDeep (VArr xs) d =
     (case d of VArr ds \<Rightarrow> VArr (defaultsItems xs ds) | _ \<Rightarrow> VArr xs)"
| "felte_defaultsDeep v d = v"
| "defaultsFields [] dkvs = []"
| "defaultsFields ((k, v) # kvs) dkvs =
     (k, (case map_of dkvs k of None \<Rightarrow> v | Some d \<Rightarrow> felte_defaultsDeep v d))
       # defaultsFields kvs dkvs"
| "defaultsItems [] ds = ds"
| "defaultsItems (x # xs) ds =
     (case ds of
        [] \<Rightarrow> x # xs
      | d # ds' \<Rightarrow> felte_defaultsDeep x d # defaultsItems xs ds')"

text \<open>
  Modelled from the spec: \<^verbatim>\<open>_merge\<close> (missing: \<^verbatim>\<open>@felte/common\<close>). A deep merge in
  which the second tree wins (section 3: "merge of declared defaults and externally
  supplied initial values"): it is the gap-filling merge with the operands exchanged.
\<close>

definition felte_merge :: "val \<Rightarrow> val \<Rightarrow> val" where
  "felte_merge a b = felte_defaultsDeep b a"



section \<open>Controls and the form node\<close>

text \<open>
  A DOM element as the handlers read it. The functions \<^verbatim>\<open>getPath\<close>, \<^verbatim>\<open>getIndex\<close>,
  \<^verbatim>\<open>getPathFromDataset\<close> and \<^verbatim>\<open>shouldIgnore\<close> of \<^verbatim>\<open>@felte/common\<close> are not part of
  the analysed file: what each returns for an element is a field of the element.
  \<open>el_felteIndex\<close> is \<^verbatim>\<open>Number(el.dataset.felteIndex)\<close>, \<open>el_keepOnRemove\<close> is the
  value of the attribute \<^verbatim>\<open>data-felte-keep-on-remove\<close> (\<open>None\<close> when the element does not
  carry it), \<open>el_files\<close> is \<^verbatim>\<open>el.files\<close> (empty when there is none).
\<close>

datatype tag = INPUT | SELECT | TEXTAREA | OTHER

datatype jsnum = NaN | Fin int

text \<open>Strict equality of two numbers: NaN is equal to nothing.\<close>

fun num_eq :: "jsnum \<Rightarrow> jsnum \<Rightarrow> bool" where
  "num_eq (Fin a) (Fin b) = (a = b)"
| "num_eq a b = False"

record element =
  el_tag :: tag
  el_name :: string
  el_type :: string
  el_checked :: bool
  el_value :: string
  el_multiple :: bool
  el_files :: "val list"
  el_keepOnRemove :: "string option"
  el_felteIndex :: jsnum
  el_index :: "jsnum option"
  el_path :: path
  el_datasetPath :: path
  el_ignored :: bool

text \<open>
  Modelled from the spec: \<^verbatim>\<open>isFormControl\<close>, \<^verbatim>\<open>isInputElement\<close> and \<^verbatim>\<open>isSelectElement\<close>
  (missing: \<^verbatim>\<open>@felte/common\<close>). They tell the kind of an element (section 6: "a way to
  detect is this a form control"); the control kinds are text, select, checkbox, radio and
  file (section 9), that is the input, select and textarea elements.
\<close>

definition isFormControl :: "element \<Rightarrow> bool" where
  "isFormControl el = (el_tag el = INPUT \<or> el_tag el = SELECT \<or> el_tag el = TEXTAREA)"

definition isInputElement :: "element \<Rightarrow> bool" where
  "isInputElement el = (el_tag el = INPUT)"

definition isSelectElement :: "element \<Rightarrow> bool" where
  "isSelectElement el = (el_tag el = SELECT)"

definition shouldIgnore :: "element \<Rightarrow> bool" where
  "shouldIgnore el = el_ignored el"

definition getPath :: "element \<Rightarrow> path" where
  "getPath el = el_path el"

definition getIndex :: "element \<Rightarrow> jsnum option" where
  "getIndex el = el_index el"

definition getPathFromDataset :: "element \<Rightarrow> path" where
  "getPathFromDataset el = el_datasetPath el"

text \<open>
  The bound form node: \<open>fn_elements\<close> is \<^verbatim>\<open>node.elements\<close>, \<open>fn_descendants\<close> lists the
  elements under the node in document order (what \<^verbatim>\<open>querySelectorAll\<close> searches), and
  \<open>fn_defaultData\<close> is \<^verbatim>\<open>getFormDefaultValues(node).defaultData\<close>, the defaults computed
  from the whole tree as it stands (the function is not part of the analysed file).
\<close>

record form_node =
  fn_elements :: "element list"
  fn_descendants :: "element list"
  fn_defaultData :: val

text \<open>\<^verbatim>\<open>node.querySelectorAll(`[name="${name}"]`)\<close>\<close>

definition querySelectorAllName :: "form_node \<Rightarrow> string \<Rightarrow> element list" where
  "querySelectorAllName node name = filter (\<lambda>el. el_name el = name) (fn_descendants node)"

text \<open>
  A node of a mutation record: a text node, or an element together with the controls
  that \<^verbatim>\<open>getFormControls\<close> (not part of the analysed file) finds for it.
\<close>

datatype dnode = TextNode | ElementNode element "element list"

fun isElement :: "dnode \<Rightarrow> bool" where
  "isElement TextNode = False"
| "isElement (ElementNode el cs) = True"

fun getFormControls :: "dnode \<Rightarrow> element list" where
  "getFormControls TextNode = []"
| "getFormControls (ElementNode el cs) = cs"

datatype mutation_type = ChildList | Attributes | CharacterData

record mutation =
  m_type :: mutation_type
  m_addedNodes :: "dnode list"
  m_removedNodes :: "dnode list"

section \<open>Stores, configuration and observable calls\<close>

text \<open>
  An extender instance has two optional hooks; \<open>h_id\<close> tells the instances apart.
  An extender is a factory, called with the stage and the form node.
\<close>

record handler =
  h_id :: nat
  h_onSubmitError :: bool
  h_destroy :: bool

datatype stage = MOUNT | UPDATE

type_synonym extender = "stage \<Rightarrow> form_node \<Rightarrow> handler"

text \<open>
  The mutable state that \<^verbatim>\<open>createFormAction\<close> works on: the six stores (each a value
  cell, read with \<^verbatim>\<open>get\<close>, written with \<^verbatim>\<open>set\<close> and \<^verbatim>\<open>update\<close>), the bound form node and
  the current extender instances. \<^verbatim>\<open>_getFormNode()\<close> gives a reference to a DOM node,
  and the node it refers to changes while the reference stays the same: the state holds
  the reference (\<open>formNode\<close>) and what every reference refers to at the moment (\<open>dom\<close>).
\<close>

type_synonym node_ref = nat

record fstate =
  data :: val
  errors :: val
  warnings :: val
  touched :: val
  isSubmitting :: bool
  isDirty :: bool
  formNode :: "node_ref option"
  dom :: "node_ref \<Rightarrow> form_node"
  currentExtenders :: "handler list"

text \<open>
  A call of user code either returns a value (\<open>Inr\<close>) or throws one (\<open>Inl\<close>); for an
  awaited call a rejected promise is a throw. While the handler awaits, other handlers
  may run and write the stores: an awaited call takes the state at the call and gives
  the state at the time the handler resumes.
\<close>

type_synonym 'a outcome = "val + 'a"

type_synonym validation = "val \<Rightarrow> fstate \<Rightarrow> val outcome \<times> fstate"

type_synonym submit_fn = "val \<Rightarrow> fstate \<Rightarrow> unit outcome \<times> fstate"

type_synonym on_error = "val \<Rightarrow> val outcome"

text \<open>
  \<^verbatim>\<open>FormConfig\<close>: the submit action, the validation and warning function sets, the
  error-recovery function, and \<^verbatim>\<open>touchTriggerEvents\<close>. \<open>None\<close> is a key that is not
  configured. \<^verbatim>\<open>CreateSubmitHandlerConfig\<close> holds the per-handler overrides.
\<close>

record config =
  cfg_onSubmit :: "submit_fn option"
  cfg_validate :: "validation option"
  cfg_warn :: "validation option"
  cfg_onError :: "on_error option"
  cfg_touchInput :: bool
  cfg_touchChange :: bool
  cfg_touchBlur :: bool

record overrides =
  alt_onSubmit :: "submit_fn option"
  alt_validate :: "validation option"
  alt_warn :: "validation option"
  alt_onError :: "on_error option"

text \<open>\<^verbatim>\<open>a ?? b\<close>\<close>

fun nullish :: "'a option \<Rightarrow> 'a option \<Rightarrow> 'a option" where
  "nullish None b = b"
| "nullish (Some x) b = Some x"

text \<open>\<^verbatim>\<open>altConfig?.key\<close>\<close>

fun alt :: "(overrides \<Rightarrow> 'a option) \<Rightarrow> overrides option \<Rightarrow> 'a option" where
  "alt key None = None"
| "alt key (Some altConfig) = key altConfig"

text \<open>\<^verbatim>\<open>{ ...config, ...altConfig }\<close>: a key of the overrides replaces the configured one.\<close>

definition mergeConfig :: "config \<Rightarrow> overrides option \<Rightarrow> config" where
  "mergeConfig config altConfig =
     config\<lparr>cfg_onSubmit := nullish (alt alt_onSubmit altConfig) (cfg_onSubmit config),
            cfg_validate := nullish (alt alt_validate altConfig) (cfg_validate config),
            cfg_warn := nullish (alt alt_warn altConfig) (cfg_warn config),
            cfg_onError := nullish (alt alt_onError altConfig) (cfg_onError config)\<rparr>"

text \<open>The second argument of the submit action.\<close>

record submit_context =
  ctx_form :: "node_ref option"
  ctx_controls :: "element list option"
  ctx_config :: config

text \<open>
  The calls the handlers make to code outside the file, in the order they are made:
  \<^verbatim>\<open>event.preventDefault()\<close>, the submit action with its two arguments, an extender's
  \<^verbatim>\<open>onSubmitError\<close> hook with \<^verbatim>\<open>data\<close> and \<^verbatim>\<open>errors\<close>, and an extender's \<^verbatim>\<open>destroy\<close>.
\<close>

datatype call =
    PreventDefault
  | SubmitAction val submit_context
  | OnSubmitError nat val val
  | Destroy nat

fun isSubmitAction :: "call \<Rightarrow> bool" where
  "isSubmitAction (SubmitAction d ctx) = True"
| "isSubmitAction c = False"

section \<open>The submit handler\<close>

text \<open>
  \<^verbatim>\<open>createDefaultSubmitHandler\<close> (lines 48 to 78): no handler without a form; with a
  form, a handler that sends the form and throws a \<^verbatim>\<open>FelteSubmitError\<close> unless the response
  is ok. The network is outside the program: \<open>fetch\<close> gives, for the form, whether the
  response is ok (or the failure of the request) and the state when the answer is there.
\<close>

type_synonym transport = "node_ref \<Rightarrow> fstate \<Rightarrow> bool outcome \<times> fstate"

definition FelteSubmitError :: val where
  "FelteSubmitError =
     VObj [(''name'', VStr ''FelteSubmitError''),
           (''message'', VStr ''An error occurred while submitting the form'')]"

definition createDefaultSubmitHandler :: "transport \<Rightarrow> node_ref option \<Rightarrow> submit_fn option" where
  "createDefaultSubmitHandler fetch form =
     (case form of
        None \<Rightarrow> None
      | Some f \<Rightarrow>
          Some (\<lambda>d s.
            case fetch f s of
              (Inl e, s') \<Rightarrow> (Inl e, s')
            | (Inr ok, s') \<Rightarrow> if ok then (Inr (), s') else (Inl FelteSubmitError, s')))"

text \<open>
  Modelled from the spec: \<^verbatim>\<open>executeValidation\<close> (missing: \<^verbatim>\<open>@felte/common\<close>). It runs the
  validation function set, if any, against the snapshot (section 4.5, step 5); the set
  yields an error tree or \<open>undefined\<close> (section 6), and without a set there is nothing:
  \<open>undefined\<close>. The handler awaits it.
\<close>

definition executeValidation :: "val \<Rightarrow> validation option \<Rightarrow> fstate \<Rightarrow> val outcome \<times> fstate" where
  "executeValidation d validations s =
     (case validations of None \<Rightarrow> (Inr VUndef, s) | Some run \<Rightarrow> run d s)"

text \<open>
  \<^verbatim>\<open>_getCurrentExtenders().forEach((extender) => extender.onSubmitError?.({data, errors}))\<close>
\<close>

definition notifySubmitError :: "handler list \<Rightarrow> val \<Rightarrow> val \<Rightarrow> call list" where
  "notifySubmitError extenders d e =
     map (\<lambda>extender. OnSubmitError (h_id extender) d e) (filter h_onSubmitError extenders)"

text \<open>
  The four functions that \<^verbatim>\<open>handleSubmit\<close> resolves first (lines 127 to 133): the
  per-handler override, else the configured one, and for the submit action else the
  default handler of the bound form.
\<close>

definition resolveOnSubmit ::
  "transport \<Rightarrow> config \<Rightarrow> overrides option \<Rightarrow> node_ref option \<Rightarrow> submit_fn option" where
  "resolveOnSubmit fetch config altConfig node =
     nullish (alt alt_onSubmit altConfig)
       (nullish (cfg_onSubmit config) (createDefaultSubmitHandler fetch node))"

definition resolveValidate :: "config \<Rightarrow> overrides option \<Rightarrow> validation option" where
  "resolveValidate config altConfig = nullish (alt alt_validate altConfig) (cfg_validate config)"

definition resolveWarn :: "config \<Rightarrow> overrides option \<Rightarrow> validation option" where
  "resolveWarn config altConfig = nullish (alt alt_warn altConfig) (cfg_warn config)"

definition resolveOnError :: "config \<Rightarrow> overrides option \<Rightarrow> on_error option" where
  "resolveOnError config altConfig = nullish (alt alt_onError altConfig) (cfg_onError config)"

text \<open>
  The context handed to the submit action (lines 160 to 165): the form node read at line
  126, its elements filtered to form controls (when there is a form node), and the
  merged configuration. \<^verbatim>\<open>formNode.elements\<close> is read when the action is called: the
  elements are those the node has in the state \<open>s\<close> of that moment.
\<close>

definition submitContext ::
  "config \<Rightarrow> overrides option \<Rightarrow> node_ref option \<Rightarrow> fstate \<Rightarrow> submit_context" where
  "submitContext config altConfig node s =
     \<lparr>ctx_form = node,
      ctx_controls = map_option (\<lambda>f. filter isFormControl (fn_elements (dom s f))) node,
      ctx_config = mergeConfig config altConfig\<rparr>"

text \<open>
  What \<^verbatim>\<open>handleSubmit\<close> writes once both validations have returned (lines 140 to 146):
  the warnings when there are any, the touched tree set to true throughout, the errors
  when the validation gave a tree.
\<close>

definition storeValidation :: "val \<Rightarrow> val \<Rightarrow> val \<Rightarrow> fstate \<Rightarrow> fstate" where
  "storeValidation currentData currentErrors currentWarnings s3 =
     (let s4 = (if truthy currentWarnings
                then s3\<lparr>warnings := felte_merge (deepSet currentData VNull) currentWarnings\<rparr>
                else s3);
          s5 = s4\<lparr>touched := deepSet (touched s4) (VBool True)\<rparr>
      in if truthy currentErrors then s5\<lparr>errors := currentErrors\<rparr> else s5)"

text \<open>
  \<^verbatim>\<open>handleSubmit\<close> (lines 125 to 181), the function that \<^verbatim>\<open>createSubmitHandler(altConfig)\<close>
  returns. The result is how the handler settles (\<open>Inl e\<close>: it rejects with \<open>e\<close>), the
  state it leaves and the calls it made. The submit action is given the snapshot and the
  context; the model applies it to the snapshot and records the context in the call.
\<close>

definition handleSubmit ::
  "transport \<Rightarrow> config \<Rightarrow> overrides option \<Rightarrow> bool \<Rightarrow> fstate
     \<Rightarrow> unit outcome \<times> fstate \<times> call list" where
  "handleSubmit fetch config altConfig event s0 =
     (let node = formNode s0;
          onSubmit = resolveOnSubmit fetch config altConfig node;
          validate = resolveValidate config altConfig;
          warn = resolveWarn config altConfig;
          onError = resolveOnError config altConfig
      in case onSubmit of
           None \<Rightarrow> (Inr (), s0, [])
         | Some submit \<Rightarrow>
            (let prevented = (if event then [PreventDefault] else []);
                 s1 = s0\<lparr>isSubmitting := True\<rparr>;
                 currentData = data s1
             in case executeValidation currentData validate s1 of
                  (Inl e, s2) \<Rightarrow> (Inl e, s2, prevented)
                | (Inr currentErrors, s2) \<Rightarrow>
                    (case executeValidation currentData warn s2 of
                       (Inl e, s3) \<Rightarrow> (Inl e, s3, prevented)
                     | (Inr currentWarnings, s3) \<Rightarrow>
                         let s6 = storeValidation currentData currentErrors currentWarnings s3
                         in if truthy currentErrors \<and> deepSome currentErrors truthy
                            then (Inr (), s6\<lparr>isSubmitting := False\<rparr>,
                                  prevented @ notifySubmitError (currentExtenders s6) currentData currentErrors)
                            else
                             (let ctx = submitContext config altConfig node s6;
                                  calls = prevented @ [SubmitAction currentData ctx]
                              in case submit currentData s6 of
                                   (Inr u, s7) \<Rightarrow> (Inr (), s7\<lparr>isSubmitting := False\<rparr>, calls)
                                 | (Inl e, s7) \<Rightarrow>
                                     (case onError of
                                        None \<Rightarrow> (Inl e, s7\<lparr>isSubmitting := False\<rparr>, calls)
                                      | Some recover \<Rightarrow>
                                          (case recover e of
                                             Inl e' \<Rightarrow> (Inl e', s7\<lparr>isSubmitting := False\<rparr>, calls)
                                           | Inr serverErrors \<Rightarrow>
                                               if truthy serverErrors
                                               then (Inr (),
                                                     s7\<lparr>errors := serverErrors, isSubmitting := False\<rparr>,
                                                     calls @ notifySubmitError (currentExtenders s7)
                                                               currentData serverErrors)
                                               else (Inr (), s7\<lparr>isSubmitting := False\<rparr>, calls)))))))"

section \<open>The change handler\<close>

text \<open>
  Modelled from the spec: \<^verbatim>\<open>setTouched\<close> (missing: the helpers passed to
  \<^verbatim>\<open>createFormAction\<close>). It "marks the path touched" (section 4.3).
\<close>

definition setTouched :: "path \<Rightarrow> bool \<Rightarrow> fstate \<Rightarrow> fstate" where
  "setTouched p b s = s\<lparr>touched := felte_set (touched s) p (VBool b)\<rparr>"

text \<open>
  The group that \<^verbatim>\<open>setCheckboxValues\<close> resolves for its target (lines 219 to 232): the
  elements under the node that carry the target's name, are form controls and, when the
  target has an index, have that index in \<^verbatim>\<open>data-felte-index\<close>, else have the
  target's path.
\<close>

definition checkboxGroup :: "form_node \<Rightarrow> element \<Rightarrow> element list" where
  "checkboxGroup node target =
     (let index = getIndex target;
          elPath = getPath target
      in filter
           (\<lambda>checkbox.
              if \<not> isFormControl checkbox then False
              else (case index of
                      Some i \<Rightarrow> num_eq (el_felteIndex checkbox) i
                    | None \<Rightarrow> elPath = getPath checkbox))
           (querySelectorAllName node (el_name target)))"

text \<open>\<^verbatim>\<open>setCheckboxValues\<close> (lines 218 to 249).\<close>

definition setCheckboxValues :: "form_node \<Rightarrow> element \<Rightarrow> fstate \<Rightarrow> fstate" where
  "setCheckboxValues node target s =
     (let checkboxes = checkboxGroup node target
      in if length checkboxes = 0 then s
         else if length checkboxes = 1
         then s\<lparr>data := felte_set (data s) (getPath target) (VBool (el_checked target))\<rparr>
         else s\<lparr>data := felte_set (data s) (getPath target)
                          (VArr (map (\<lambda>el. VStr (el_value el))
                                   (filter el_checked (filter isInputElement checkboxes))))\<rparr>)"

text \<open>\<^verbatim>\<open>setRadioValues\<close> (lines 251 to 257): \<^verbatim>\<open>checkedRadio?.value\<close> is \<open>undefined\<close> when
  no radio is found.\<close>

definition setRadioValues :: "form_node \<Rightarrow> element \<Rightarrow> fstate \<Rightarrow> fstate" where
  "setRadioValues node target s =
     (let radios = querySelectorAllName node (el_name target);
          checkedRadio = find (\<lambda>el. isInputElement el \<and> el_checked el) radios
      in s\<lparr>data := felte_set (data s) (getPath target)
                       (case checkedRadio of None \<Rightarrow> VUndef | Some el \<Rightarrow> VStr (el_value el))\<rparr>)"

text \<open>\<^verbatim>\<open>setFileValue\<close> (lines 259 to 268).\<close>

definition setFileValue :: "element \<Rightarrow> fstate \<Rightarrow> fstate" where
  "setFileValue target s =
     (let files = el_files target
      in s\<lparr>data := felte_set (data s) (getPath target)
                       (if el_multiple target then VArr files
                        else (case files of [] \<Rightarrow> VUndef | f # fs \<Rightarrow> f))\<rparr>)"

text \<open>
  \<^verbatim>\<open>handleChange\<close> (lines 289 to 309). The event's target is \<open>None\<close> when the event has
  none; \<open>el_type\<close> is \<^verbatim>\<open>target.type\<close>.
\<close>

definition handleChange :: "config \<Rightarrow> form_node \<Rightarrow> element option \<Rightarrow> fstate \<Rightarrow> fstate" where
  "handleChange config node eventTarget s =
     (case eventTarget of
        None \<Rightarrow> s
      | Some target \<Rightarrow>
          if \<not> isFormControl target then s
          else if shouldIgnore target then s
          else if el_name target = [] then s
          else
           (let s1 = (if cfg_touchChange config then setTouched (getPath target) True s else s);
                s2 = (if isSelectElement target
                         \<or> el_type target \<in> set [''checkbox'', ''radio'', ''file'']
                      then s1\<lparr>isDirty := True\<rparr>
                      else s1);
                s3 = (if isSelectElement target
                      then s2\<lparr>data := felte_set (data s2) (getPath target) (VStr (el_value target))\<rparr>
                      else s2)
            in if \<not> isInputElement target then s3
               else
                (let s4 = (if el_type target = ''checkbox'' then setCheckboxValues node target s3 else s3);
                     s5 = (if el_type target = ''radio'' then setRadioValues node target s4 else s4)
                 in if el_type target = ''file'' then setFileValue target s5 else s5)))"

section \<open>The mutation observer\<close>

text \<open>
  \<^verbatim>\<open>unsetTaggedForRemove\<close> (lines 320 to 340). \<open>keepOnRemove\<close> is the test of lines 322 to
  325; \<open>unsetControls\<close> is the loop, run over the reversed list.
\<close>

definition keepOnRemove :: "element \<Rightarrow> bool" where
  "keepOnRemove control =
     (case el_keepOnRemove control of None \<Rightarrow> False | Some v \<Rightarrow> v \<noteq> ''false'')"

fun unsetControls :: "element list \<Rightarrow> fstate \<Rightarrow> fstate" where
  "unsetControls [] s = s"
| "unsetControls (control # rest) s =
     (if keepOnRemove control then unsetControls rest s
      else
        unsetControls rest
          (s\<lparr>errors := felte_unset (errors s) (getPathFromDataset control),
             warnings := felte_unset (warnings s) (getPathFromDataset control),
             touched := felte_unset (touched s) (getPathFromDataset control),
             data := felte_unset (data s) (getPathFromDataset control)\<rparr>))"

definition unsetTaggedForRemove :: "element list \<Rightarrow> fstate \<Rightarrow> fstate" where
  "unsetTaggedForRemove formControls s = unsetControls (rev formControls) s"

text \<open>
  The extenders are destroyed and created again for the update stage (lines 353 and 354,
  369 and 370). The state goes with the calls made so far.
\<close>

definition remountExtenders ::
  "extender list \<Rightarrow> form_node \<Rightarrow> fstate \<times> call list \<Rightarrow> fstate \<times> call list" where
  "remountExtenders extender node w =
     (case w of
        (s, calls) \<Rightarrow>
          (s\<lparr>currentExtenders := map (\<lambda>factory. factory UPDATE node) extender\<rparr>,
           calls @ map (\<lambda>h. Destroy (h_id h)) (filter h_destroy (currentExtenders s))))"

text \<open>The test of lines 346 to 351 on the added nodes.\<close>

definition shouldUpdate :: "dnode list \<Rightarrow> bool" where
  "shouldUpdate addedNodes =
     list_ex
       (\<lambda>n. case n of
               TextNode \<Rightarrow> False
             | ElementNode el cs \<Rightarrow>
                 if isFormControl el then True else length (getFormControls n) > 0)
       addedNodes"

text \<open>Lines 353 to 362: what is done for added nodes that bring a control.\<close>

definition addedControls ::
  "extender list \<Rightarrow> form_node \<Rightarrow> fstate \<times> call list \<Rightarrow> fstate \<times> call list" where
  "addedControls extender node w =
     (case remountExtenders extender node w of
        (s, calls) \<Rightarrow>
          (let newDefaultData = fn_defaultData node;
               newDefaultTouched = deepSet newDefaultData (VBool False);
               s1 = s\<lparr>data := felte_defaultsDeep (data s) newDefaultData\<rparr>
           in (s1\<lparr>touched := felte_defaultsDeep (touched s1) newDefaultTouched\<rparr>, calls)))"

text \<open>Lines 365 to 372: the loop over the removed nodes.\<close>

fun removedControls ::
  "extender list \<Rightarrow> form_node \<Rightarrow> dnode list \<Rightarrow> fstate \<times> call list \<Rightarrow> fstate \<times> call list" where
  "removedControls extender node [] w = w"
| "removedControls extender node (removedNode # rest) w =
     (if \<not> isElement removedNode then removedControls extender node rest w
      else
       (let formControls = getFormControls removedNode
        in if length formControls = 0 then removedControls extender node rest w
           else
            (case remountExtenders extender node w of
               (s, calls) \<Rightarrow>
                 removedControls extender node rest
                   (unsetTaggedForRemove formControls s, calls))))"

text \<open>
  \<^verbatim>\<open>mutationCallback\<close> (lines 342 to 375): \<open>mutationStep\<close> is the body of the loop over the
  records. A \<^verbatim>\<open>continue\<close> ends the step for the record.
\<close>

definition mutationStep ::
  "extender list \<Rightarrow> form_node \<Rightarrow> mutation \<Rightarrow> fstate \<times> call list \<Rightarrow> fstate \<times> call list" where
  "mutationStep extender node mutation w =
     (if m_type mutation \<noteq> ChildList then w
      else if length (m_addedNodes mutation) > 0
      then
        (if \<not> shouldUpdate (m_addedNodes mutation) then w
         else
          (let w1 = addedControls extender node w
           in if length (m_removedNodes mutation) > 0
              then removedControls extender node (m_removedNodes mutation) w1
              else w1))
      else if length (m_removedNodes mutation) > 0
      then removedControls extender node (m_removedNodes mutation) w
      else w)"

definition mutationCallback ::
  "extender list \<Rightarrow> form_node \<Rightarrow> mutation list \<Rightarrow> fstate \<times> call list \<Rightarrow> fstate \<times> call list" where
  "mutationCallback extender node mutationList w = fold (mutationStep extender node) mutationList w"

section \<open>Example inputs\<close>

text \<open>An input element of the given type, name, value and checked state.\<close>

definition control :: "string \<Rightarrow> string \<Rightarrow> string \<Rightarrow> bool \<Rightarrow> element" where
  "control type name v checked =
     \<lparr>el_tag = INPUT, el_name = name, el_type = type, el_checked = checked, el_value = v,
      el_multiple = False, el_files = [], el_keepOnRemove = None, el_felteIndex = NaN,
      el_index = None, el_path = [Key name], el_datasetPath = [Key name], el_ignored = False\<rparr>"

text \<open>An element that is no control, to wrap controls that are added or removed.\<close>

definition wrapper :: element where
  "wrapper = (control '''' '''' '''' False)\<lparr>el_tag := OTHER, el_path := [], el_datasetPath := []\<rparr>"

definition exForm :: "element list \<Rightarrow> form_node" where
  "exForm els = \<lparr>fn_elements = els, fn_descendants = els, fn_defaultData = VObj []\<rparr>"

text \<open>
  A form with one text field \<open>name\<close>, two extender instances of which the first has both
  hooks, and no form node bound.
\<close>

definition exState :: fstate where
  "exState =
     \<lparr>data = VObj [(''name'', VStr '''')],
      errors = VObj [],
      warnings = VObj [],
      touched = VObj [(''name'', VBool False)],
      isSubmitting = False,
      isDirty = False,
      formNode = None,
      dom = (\<lambda>r. exForm []),
      currentExtenders = [\<lparr>h_id = 7, h_onSubmitError = True, h_destroy = True\<rparr>,
                          \<lparr>h_id = 8, h_onSubmitError = False, h_destroy = False\<rparr>]\<rparr>"

definition exFetch :: transport where
  "exFetch f s = (Inr True, s)"

text \<open>
  A validator that requires \<open>name\<close>; when it has no complaint it still gives a tree,
  with \<open>undefined\<close> at \<open>name\<close>. While it is awaited the user edits the field.
\<close>

definition requiredName :: validation where
  "requiredName d s =
     (Inr (if felte_get d [Key ''name''] = VStr '''' then VObj [(''name'', VStr ''required'')]
           else VObj [(''name'', VUndef)]),
      s\<lparr>data := felte_set (data s) [Key ''name''] (VStr ''edited'')\<rparr>)"

definition rejecting :: validation where
  "rejecting d s = (Inl (VStr ''validator failed''), s)"

definition accepted :: submit_fn where
  "accepted d s = (Inr (), s)"

definition refused :: submit_fn where
  "refused d s = (Inl (VStr ''offline''), s)"

definition recoverName :: on_error where
  "recoverName e = Inr (VObj [(''name'', e)])"

definition exConfig :: config where
  "exConfig =
     \<lparr>cfg_onSubmit = Some accepted, cfg_validate = Some requiredName, cfg_warn = None,
      cfg_onError = None, cfg_touchInput = False, cfg_touchChange = False,
      cfg_touchBlur = False\<rparr>"

text \<open>
  The same form bound to the node with reference 1, which holds the field \<open>name\<close> and an
  element that is no control.
\<close>

definition bound :: fstate where
  "bound =
     exState\<lparr>data := VObj [(''name'', VStr ''Ada'')],
             formNode := Some 1,
             dom := (\<lambda>r. exForm [control ''text'' ''name'' ''Ada'' False, wrapper])\<rparr>"

text \<open>
  A validator with no complaint; while it is awaited the user edits the field and a field
  \<open>email\<close> is added to the form.
\<close>

definition addingEmail :: validation where
  "addingEmail d s =
     (Inr (VObj [(''name'', VUndef)]),
      s\<lparr>data := felte_set (data s) [Key ''name''] (VStr ''edited''),
        dom := (\<lambda>r. exForm [control ''text'' ''name'' ''Ada'' False, wrapper,
                            control ''text'' ''email'' '''' False])\<rparr>)"

text \<open>Overrides given to \<^verbatim>\<open>createSubmitHandler\<close>: all but the warning function set.\<close>

definition overriding :: overrides where
  "overriding =
     \<lparr>alt_onSubmit = Some accepted, alt_validate = Some addingEmail, alt_warn = None,
      alt_onError = Some recoverName\<rparr>"

definition exExtender :: extender where
  "exExtender st f = \<lparr>h_id = 9, h_onSubmitError = True, h_destroy = True\<rparr>"

text \<open>The stores of a form whose fields \<open>name\<close> and \<open>email\<close> have been filled in.\<close>

definition filled :: fstate where
  "filled =
     exState\<lparr>data := VObj [(''name'', VStr ''Ada''), (''email'', VStr ''ada@example.org'')],
             errors := VObj [(''email'', VStr ''taken'')],
             warnings := VObj [(''email'', VStr ''unusual'')],
             touched := VObj [(''name'', VBool True), (''email'', VBool True)]\<rparr>"

lemmas ex_defs = exState_def exFetch_def requiredName_def rejecting_def accepted_def refused_def
  recoverName_def exConfig_def control_def wrapper_def exForm_def exExtender_def filled_def
  bound_def addingEmail_def overriding_def

lemmas submit_defs = handleSubmit_def resolveOnSubmit_def resolveValidate_def resolveWarn_def
  resolveOnError_def executeValidation_def storeValidation_def notifySubmitError_def
  createDefaultSubmitHandler_def submitContext_def

lemmas dom_defs = isFormControl_def isInputElement_def isSelectElement_def
  shouldIgnore_def getPath_def getIndex_def getPathFromDataset_def querySelectorAllName_def
  checkboxGroup_def setCheckboxValues_def setRadioValues_def setFileValue_def setTouched_def
  handleChange_def

lemmas mutation_defs = mutationCallback_def mutationStep_def addedControls_def
  remountExtenders_def shouldUpdate_def unsetTaggedForRemove_def keepOnRemove_def

section \<open>Properties of the tree helpers\<close>



lemma map_of_put: "map_of (put k x kvs) = (map_of kvs)(k \<mapsto> x)"
  by (induction kvs) (auto simp add: fun_eq_iff)

lemma length_put_at: "i < length (put_at i x xs)"
  by (simp add: put_at_def)

lemma nth_put_at: "put_at i x xs ! i = x"
  by (simp add: put_at_def)

text \<open>What is written at a path is what is read there afterwards.\<close>

lemma felte_get_set: "felte_get (felte_set v p x) p = x"
proof (induction p arbitrary: v)
  case Nil
  show ?case by simp
next
  case (Cons s p)
  show ?case
  proof (cases s)
    case (Key k)
    with Cons show ?thesis by (simp add: map_of_put)
  next
    case (Idx i)
    with Cons show ?thesis by (simp add: length_put_at nth_put_at)
  qed
qed









section \<open>The submit handler: properties\<close>

text \<open>
  In the theorems below \<open>s\<close> is the state when the handler is invoked, \<open>s2\<close> the state
  when the awaited validation has returned, \<open>s3\<close> the state when the awaited warning
  run has returned, and \<open>s7\<close> the state when the awaited submit action has settled.
  Nothing is assumed of these states: what other handlers wrote to the stores in the
  meantime is in them.
\<close>

text \<open>
  C8. When no submit action is resolvable (no per-handler override, no configured
  \<^verbatim>\<open>onSubmit\<close>, no form node bound and so no default handler), the handler returns
  without raising, makes no call (the default action of the event is not prevented) and
  leaves the state as it was: no store is written, \<open>isSubmitting\<close> is never set.
\<close>

theorem handleSubmit_no_action:
  assumes "alt alt_onSubmit altConfig = None" and "cfg_onSubmit config = None"
    and "formNode s = None"
  shows "handleSubmit fetch config altConfig event s = (Inr (), s, [])"
  using assms
  by (simp add: handleSubmit_def resolveOnSubmit_def createDefaultSubmitHandler_def)

theorem handleSubmit_no_action_witness:
  "handleSubmit exFetch (exConfig\<lparr>cfg_onSubmit := None\<rparr>) None True exState = (Inr (), exState, [])
   \<and> isSubmitting exState = False"
  using handleSubmit_no_action[of None "exConfig\<lparr>cfg_onSubmit := None\<rparr>" exState exFetch True]
  by (simp add: ex_defs)

text \<open>
  The awaited validations are outside the \<^verbatim>\<open>try\<close> block of lines 159 to 180, and nothing
  in the handler catches what they throw: when one of them rejects, the handler rejects
  at once, and the state is the one the validation left, with \<open>isSubmitting\<close> as set at
  line 136. Nothing of lines 140 to 180 is run.
\<close>

lemma handleSubmit_validation_rejects:
  assumes "resolveOnSubmit fetch config altConfig (formNode s) = Some submit"
    and "executeValidation (data s) (resolveValidate config altConfig)
           (s\<lparr>isSubmitting := True\<rparr>) = (Inl e, s2)"
  shows "handleSubmit fetch config altConfig event s =
           (Inl e, s2, if event then [PreventDefault] else [])"
  using assms by (simp add: handleSubmit_def Let_def)

lemma handleSubmit_warning_rejects:
  assumes "resolveOnSubmit fetch config altConfig (formNode s) = Some submit"
    and "executeValidation (data s) (resolveValidate config altConfig)
           (s\<lparr>isSubmitting := True\<rparr>) = (Inr errs, s2)"
    and "executeValidation (data s) (resolveWarn config altConfig) s2 = (Inl e, s3)"
  shows "handleSubmit fetch config altConfig event s =
           (Inl e, s3, if event then [PreventDefault] else [])"
  using assms by (simp add: handleSubmit_def Let_def)




text \<open>
  Once both validations have returned, \<open>isSubmitting\<close> is false when the handler
  settles, on each of the paths that follow: the validation short-circuit, a successful
  submit, a failure of the submit action that \<^verbatim>\<open>onError\<close> recovers, and one that
  propagates.
\<close>

lemma handleSubmit_releases:
  assumes "resolveOnSubmit fetch config altConfig (formNode s) = Some submit"
    and "executeValidation (data s) (resolveValidate config altConfig)
           (s\<lparr>isSubmitting := True\<rparr>) = (Inr errs, s2)"
    and "executeValidation (data s) (resolveWarn config altConfig) s2 = (Inr warns, s3)"
  shows "isSubmitting (fst (snd (handleSubmit fetch config altConfig event s))) = False"
  using assms
  by (auto simp add: handleSubmit_def Let_def split: prod.splits sum.splits option.splits)

text \<open>
  C2. The specification releases \<open>isSubmitting\<close> on every exit path: it is to be false
  once the handler settles, also when a validation or warning function throws or
  rejects. The code does not: with a validation function that rejects, and with a
  warning function that rejects, the handler rejects and leaves \<open>isSubmitting\<close> true.
\<close>

theorem handleSubmit_rejecting_validation_keeps_isSubmitting:
  "handleSubmit exFetch (exConfig\<lparr>cfg_validate := Some rejecting\<rparr>) None True exState =
     (Inl (VStr ''validator failed''), exState\<lparr>isSubmitting := True\<rparr>, [PreventDefault])
   \<and> handleSubmit exFetch (exConfig\<lparr>cfg_validate := None, cfg_warn := Some rejecting\<rparr>)
       None True exState =
     (Inl (VStr ''validator failed''), exState\<lparr>isSubmitting := True\<rparr>, [PreventDefault])"
  by (simp add: ex_defs submit_defs Let_def)

text \<open>
  C3. When the submit action throws \<open>e\<close>: with no error-recovery function resolved, the
  handler rejects with \<open>e\<close>; with one that returns a truthy error tree for \<open>e\<close>, the
  handler resolves, the tree is in the errors store, and after the call of the submit
  action the \<^verbatim>\<open>onSubmitError\<close> hook of every current extender that has one is called with
  the snapshot and the tree.
\<close>

theorem handleSubmit_action_failure:
  assumes submit: "resolveOnSubmit fetch config altConfig (formNode s) = Some submit"
    and validated: "executeValidation (data s) (resolveValidate config altConfig)
                      (s\<lparr>isSubmitting := True\<rparr>) = (Inr errs, s2)"
    and warned: "executeValidation (data s) (resolveWarn config altConfig) s2 = (Inr warns, s3)"
    and passed: "\<not> deepSome errs truthy"
    and thrown: "submit (data s) (storeValidation (data s) errs warns s3) = (Inl e, s7)"
  shows "(resolveOnError config altConfig = None \<longrightarrow>
            fst (handleSubmit fetch config altConfig event s) = Inl e)
       \<and> (\<forall>recover tree.
            resolveOnError config altConfig = Some recover \<and> recover e = Inr tree \<and> truthy tree
            \<longrightarrow> (case handleSubmit fetch config altConfig event s of
                   (r, s', calls) \<Rightarrow>
                     r = Inr () \<and> errors s' = tree
                     \<and> calls = (if event then [PreventDefault] else [])
                                @ [SubmitAction (data s)
                                     (submitContext config altConfig (formNode s)
                                        (storeValidation (data s) errs warns s3))]
                                @ map (\<lambda>extender. OnSubmitError (h_id extender) (data s) tree)
                                    (filter h_onSubmitError (currentExtenders s7))))"
  using assms by (simp add: handleSubmit_def Let_def notifySubmitError_def)

theorem handleSubmit_action_failure_witness:
  "fst (handleSubmit exFetch (exConfig\<lparr>cfg_onSubmit := Some refused, cfg_validate := None\<rparr>)
          None False exState) = Inl (VStr ''offline'')
   \<and> handleSubmit exFetch
         (exConfig\<lparr>cfg_onSubmit := Some refused, cfg_validate := None,
                   cfg_onError := Some recoverName\<rparr>) None False exState =
       (Inr (),
        exState\<lparr>errors := VObj [(''name'', VStr ''offline'')],
                touched := VObj [(''name'', VBool True)]\<rparr>,
        [SubmitAction (VObj [(''name'', VStr '''')])
           (submitContext
              (exConfig\<lparr>cfg_onSubmit := Some refused, cfg_validate := None,
                        cfg_onError := Some recoverName\<rparr>) None None exState),
         OnSubmitError 7 (VObj [(''name'', VStr '''')]) (VObj [(''name'', VStr ''offline'')])])"
  using handleSubmit_action_failure[of exFetch
      "exConfig\<lparr>cfg_onSubmit := Some refused, cfg_validate := None\<rparr>" None exState refused
      VUndef "exState\<lparr>isSubmitting := True\<rparr>" VUndef "exState\<lparr>isSubmitting := True\<rparr>"
      "VStr ''offline''"
      "exState\<lparr>isSubmitting := True, touched := VObj [(''name'', VBool True)]\<rparr>" False]
    handleSubmit_action_failure[of exFetch
      "exConfig\<lparr>cfg_onSubmit := Some refused, cfg_validate := None,
                cfg_onError := Some recoverName\<rparr>"
      None exState refused
      VUndef "exState\<lparr>isSubmitting := True\<rparr>" VUndef "exState\<lparr>isSubmitting := True\<rparr>"
      "VStr ''offline''"
      "exState\<lparr>isSubmitting := True, touched := VObj [(''name'', VBool True)]\<rparr>" False]
  by (simp add: ex_defs submit_defs Let_def)

text \<open>
  What the overrides and the configuration resolve to, key by key, and what the merged
  configuration of the context holds: for each of the four keys the override when there
  is one, else the configured value; the other keys as configured.
\<close>

lemma mergeConfig_keys:
  "cfg_onSubmit (mergeConfig config altConfig) =
     (case altConfig of
        None \<Rightarrow> cfg_onSubmit config
      | Some a \<Rightarrow> (case alt_onSubmit a of None \<Rightarrow> cfg_onSubmit config | Some f \<Rightarrow> Some f))"
  "cfg_validate (mergeConfig config altConfig) =
     (case altConfig of
        None \<Rightarrow> cfg_validate config
      | Some a \<Rightarrow> (case alt_validate a of None \<Rightarrow> cfg_validate config | Some f \<Rightarrow> Some f))"
  "cfg_warn (mergeConfig config altConfig) =
     (case altConfig of
        None \<Rightarrow> cfg_warn config
      | Some a \<Rightarrow> (case alt_warn a of None \<Rightarrow> cfg_warn config | Some f \<Rightarrow> Some f))"
  "cfg_onError (mergeConfig config altConfig) =
     (case altConfig of
        None \<Rightarrow> cfg_onError config
      | Some a \<Rightarrow> (case alt_onError a of None \<Rightarrow> cfg_onError config | Some f \<Rightarrow> Some f))"
  "cfg_touchInput (mergeConfig config altConfig) = cfg_touchInput config"
  "cfg_touchChange (mergeConfig config altConfig) = cfg_touchChange config"
  "cfg_touchBlur (mergeConfig config altConfig) = cfg_touchBlur config"
  by (simp_all add: mergeConfig_def split: option.splits)




text \<open>
  C9, as it is worded, speaks of every invocation in which the validation returns a
  defined error tree. It does not hold of all of them: when the validation returns
  \<open>{name: undefined}\<close> and the warning function set then rejects, the handler rejects,
  the errors store keeps what it held and the submit action is not called.
\<close>

theorem handleSubmit_falsy_errors_warning_rejects:
  "executeValidation (VObj [(''name'', VStr ''Ada'')])
     (resolveValidate (exConfig\<lparr>cfg_warn := Some rejecting\<rparr>) None)
     (exState\<lparr>data := VObj [(''name'', VStr ''Ada'')],
              errors := VObj [(''name'', VStr ''required'')], isSubmitting := True\<rparr>) =
     (Inr (VObj [(''name'', VUndef)]),
      exState\<lparr>data := VObj [(''name'', VStr ''edited'')],
              errors := VObj [(''name'', VStr ''required'')], isSubmitting := True\<rparr>)
   \<and> truthy (VObj [(''name'', VUndef)])
   \<and> handleSubmit exFetch (exConfig\<lparr>cfg_warn := Some rejecting\<rparr>) None False
        (exState\<lparr>data := VObj [(''name'', VStr ''Ada'')],
                 errors := VObj [(''name'', VStr ''required'')]\<rparr>) =
       (Inl (VStr ''validator failed''),
        exState\<lparr>data := VObj [(''name'', VStr ''edited'')],
                errors := VObj [(''name'', VStr ''required'')], isSubmitting := True\<rparr>,
        [])
   \<and> errors (fst (snd (handleSubmit exFetch (exConfig\<lparr>cfg_warn := Some rejecting\<rparr>) None False
                          (exState\<lparr>data := VObj [(''name'', VStr ''Ada'')],
                                   errors := VObj [(''name'', VStr ''required'')]\<rparr>)))) \<noteq>
       VObj [(''name'', VUndef)]"
  by (simp add: ex_defs submit_defs Let_def)

text \<open>
  C9, for the invocations in which the warning function set returns. When the validation
  returns a defined error tree in which no entry is truthy and the warning function set
  then returns, the tree is in the errors store
  when the submit action is called, and the submit action is called, once; when it
  succeeds the handler resolves with the state the action left, so the errors stored
  before the submission are replaced by the tree unless the action writes the errors
  store itself.
\<close>

theorem handleSubmit_stores_falsy_errors:
  assumes submit: "resolveOnSubmit fetch config altConfig (formNode s) = Some submit"
    and validated: "executeValidation (data s) (resolveValidate config altConfig)
                      (s\<lparr>isSubmitting := True\<rparr>) = (Inr errs, s2)"
    and warned: "executeValidation (data s) (resolveWarn config altConfig) s2 = (Inr warns, s3)"
    and defined: "truthy errs"
    and falsy: "\<not> deepSome errs truthy"
  shows "errors (storeValidation (data s) errs warns s3) = errs
       \<and> filter isSubmitAction (snd (snd (handleSubmit fetch config altConfig event s))) =
           [SubmitAction (data s)
              (submitContext config altConfig (formNode s)
                 (storeValidation (data s) errs warns s3))]
       \<and> (\<forall>s7. submit (data s) (storeValidation (data s) errs warns s3) = (Inr (), s7) \<longrightarrow>
             handleSubmit fetch config altConfig event s =
               (Inr (), s7\<lparr>isSubmitting := False\<rparr>,
                (if event then [PreventDefault] else [])
                @ [SubmitAction (data s)
                     (submitContext config altConfig (formNode s)
                        (storeValidation (data s) errs warns s3))]))"
proof -
  have stored: "errors (storeValidation (data s) errs warns s3) = errs"
    using defined by (simp add: storeValidation_def Let_def)
  have called:
    "filter isSubmitAction (snd (snd (handleSubmit fetch config altConfig event s))) =
       [SubmitAction (data s)
          (submitContext config altConfig (formNode s)
             (storeValidation (data s) errs warns s3))]"
    using submit validated warned falsy
    by (auto simp add: handleSubmit_def Let_def notifySubmitError_def filter_empty_conv
          split: prod.splits sum.splits option.splits)
  have resolved:
    "\<forall>s7. submit (data s) (storeValidation (data s) errs warns s3) = (Inr (), s7) \<longrightarrow>
       handleSubmit fetch config altConfig event s =
         (Inr (), s7\<lparr>isSubmitting := False\<rparr>,
          (if event then [PreventDefault] else [])
          @ [SubmitAction (data s)
               (submitContext config altConfig (formNode s)
                  (storeValidation (data s) errs warns s3))])"
    using submit validated warned falsy by (simp add: handleSubmit_def Let_def)
  from stored called resolved show ?thesis by blast
qed

theorem handleSubmit_stores_falsy_errors_witness:
  "errors (exState\<lparr>data := VObj [(''name'', VStr ''Ada'')],
                   errors := VObj [(''name'', VStr ''required'')]\<rparr>)
     = VObj [(''name'', VStr ''required'')]
   \<and> handleSubmit exFetch exConfig None False
        (exState\<lparr>data := VObj [(''name'', VStr ''Ada'')],
                 errors := VObj [(''name'', VStr ''required'')]\<rparr>) =
       (Inr (),
        exState\<lparr>data := VObj [(''name'', VStr ''edited'')],
                errors := VObj [(''name'', VUndef)],
                touched := VObj [(''name'', VBool True)]\<rparr>,
        [SubmitAction (VObj [(''name'', VStr ''Ada'')])
           \<lparr>ctx_form = None, ctx_controls = None, ctx_config = exConfig\<rparr>])"
  using handleSubmit_stores_falsy_errors[of exFetch exConfig None
      "exState\<lparr>data := VObj [(''name'', VStr ''Ada'')],
               errors := VObj [(''name'', VStr ''required'')]\<rparr>"
      accepted "VObj [(''name'', VUndef)]"
      "exState\<lparr>isSubmitting := True, data := VObj [(''name'', VStr ''edited'')],
               errors := VObj [(''name'', VStr ''required'')]\<rparr>"
      VUndef
      "exState\<lparr>isSubmitting := True, data := VObj [(''name'', VStr ''edited'')],
               errors := VObj [(''name'', VStr ''required'')]\<rparr>"
      False]
  by (simp add: ex_defs submit_defs mergeConfig_def Let_def)

section \<open>The change handler: properties\<close>

text \<open>
  C5. On a change event whose target is a named checkbox input that is not ignored: when
  the group resolved for the target (\<open>checkboxGroup\<close>: the controls under the node with
  the target's name and its index, or without an index its path) has exactly one member,
  the value written at the target's path in the data store is the boolean checked state of
  the target; when the group has two or more members, it is the array of the values of
  the checked members, in document order. The value is what the path then reads.
\<close>

theorem handleChange_checkbox:
  assumes "isInputElement target" and "el_type target = ''checkbox''"
    and "\<not> shouldIgnore target" and "el_name target \<noteq> []"
  shows "(length (checkboxGroup node target) = 1 \<longrightarrow>
            data (handleChange config node (Some target) s) =
              felte_set (data s) (getPath target) (VBool (el_checked target))
            \<and> felte_get (data (handleChange config node (Some target) s)) (getPath target) =
              VBool (el_checked target))
       \<and> (2 \<le> length (checkboxGroup node target) \<longrightarrow>
            data (handleChange config node (Some target) s) =
              felte_set (data s) (getPath target)
                (VArr (map (\<lambda>el. VStr (el_value el))
                         (filter (\<lambda>el. isInputElement el \<and> el_checked el)
                            (checkboxGroup node target))))
            \<and> felte_get (data (handleChange config node (Some target) s)) (getPath target) =
              VArr (map (\<lambda>el. VStr (el_value el))
                      (filter (\<lambda>el. isInputElement el \<and> el_checked el)
                         (checkboxGroup node target))))"
  using assms
  by (auto simp add: handleChange_def setCheckboxValues_def setTouched_def Let_def felte_get_set
        isInputElement_def isFormControl_def isSelectElement_def conj_commute)

theorem handleChange_checkbox_witness:
  "data (handleChange exConfig (exForm [control ''checkbox'' ''subscribe'' ''on'' True])
           (Some (control ''checkbox'' ''subscribe'' ''on'' True)) exState) =
     VObj [(''name'', VStr ''''), (''subscribe'', VBool True)]
   \<and> data (handleChange exConfig
             (exForm [control ''checkbox'' ''tags'' ''a'' True,
                      control ''checkbox'' ''tags'' ''b'' False,
                      control ''checkbox'' ''tags'' ''c'' True])
             (Some (control ''checkbox'' ''tags'' ''c'' True)) exState) =
     VObj [(''name'', VStr ''''), (''tags'', VArr [VStr ''a'', VStr ''c''])]"
  using handleChange_checkbox[of "control ''checkbox'' ''subscribe'' ''on'' True"
      "exForm [control ''checkbox'' ''subscribe'' ''on'' True]" exConfig exState]
    handleChange_checkbox[of "control ''checkbox'' ''tags'' ''c'' True"
      "exForm [control ''checkbox'' ''tags'' ''a'' True, control ''checkbox'' ''tags'' ''b'' False,
               control ''checkbox'' ''tags'' ''c'' True]" exConfig exState]
  by (simp add: dom_defs ex_defs Let_def)

text \<open>
  Without an index on the target, the group is made of the form controls that carry the
  target's name and have the target's path.
\<close>

lemma checkboxGroup_by_path:
  "getIndex target = None \<Longrightarrow>
   checkboxGroup node target =
     filter (\<lambda>el. isFormControl el \<and> getPath el = getPath target)
       (querySelectorAllName node (el_name target))"
  by (auto simp add: checkboxGroup_def Let_def intro: filter_cong)

text \<open>
  C10. On a change event whose target is a named radio input that is not ignored: if no
  input with the target's name under the node is checked, \<open>undefined\<close> is written at the
  target's path in the data store, and the path reads \<open>undefined\<close> afterwards whatever
  it held before.
\<close>

theorem handleChange_radio_unchecked:
  assumes "isInputElement target" and "el_type target = ''radio''"
    and "\<not> shouldIgnore target" and "el_name target \<noteq> []"
    and "\<not> list_ex (\<lambda>el. isInputElement el \<and> el_checked el)
             (querySelectorAllName node (el_name target))"
  shows "data (handleChange config node (Some target) s) =
           felte_set (data s) (getPath target) VUndef
       \<and> felte_get (data (handleChange config node (Some target) s)) (getPath target) = VUndef"
proof -
  have "find (\<lambda>el. isInputElement el \<and> el_checked el)
          (querySelectorAllName node (el_name target)) = None"
    using assms(5) by (simp add: find_None_iff list_ex_iff)
  then show ?thesis using assms(1-4)
    by (simp add: handleChange_def setRadioValues_def setTouched_def Let_def felte_get_set
        isInputElement_def isFormControl_def isSelectElement_def)
qed

theorem handleChange_radio_unchecked_witness:
  "felte_get (data (exState\<lparr>data := VObj [(''color'', VStr ''red'')]\<rparr>)) [Key ''color'']
     = VStr ''red''
   \<and> data (handleChange exConfig
            (exForm [control ''radio'' ''color'' ''red'' False,
                     control ''radio'' ''color'' ''blue'' False])
            (Some (control ''radio'' ''color'' ''red'' False))
            (exState\<lparr>data := VObj [(''color'', VStr ''red'')]\<rparr>)) =
     VObj [(''color'', VUndef)]"
  using handleChange_radio_unchecked[of "control ''radio'' ''color'' ''red'' False"
      "exForm [control ''radio'' ''color'' ''red'' False, control ''radio'' ''color'' ''blue'' False]"
      exConfig "exState\<lparr>data := VObj [(''color'', VStr ''red'')]\<rparr>"]
  by (simp add: dom_defs ex_defs Let_def)

section \<open>The mutation observer: properties\<close>

text \<open>
  \<^verbatim>\<open>unsetTaggedForRemove\<close> unsets, in each of the four trees, the paths of the controls that
  are not kept, taken in reverse order; the rest of the state is as it was. When every
  control is kept, nothing changes.
\<close>

lemma unsetControls_trees:
  "unsetControls cs s =
     s\<lparr>errors := foldl felte_unset (errors s)
                  (map getPathFromDataset (filter (\<lambda>c. \<not> keepOnRemove c) cs)),
       warnings := foldl felte_unset (warnings s)
                  (map getPathFromDataset (filter (\<lambda>c. \<not> keepOnRemove c) cs)),
       touched := foldl felte_unset (touched s)
                  (map getPathFromDataset (filter (\<lambda>c. \<not> keepOnRemove c) cs)),
       data := foldl felte_unset (data s)
                  (map getPathFromDataset (filter (\<lambda>c. \<not> keepOnRemove c) cs))\<rparr>"
  by (induction cs arbitrary: s) simp_all

lemma unsetTaggedForRemove_trees:
  "unsetTaggedForRemove cs s =
     s\<lparr>errors := foldl felte_unset (errors s)
                  (map getPathFromDataset (filter (\<lambda>c. \<not> keepOnRemove c) (rev cs))),
       warnings := foldl felte_unset (warnings s)
                  (map getPathFromDataset (filter (\<lambda>c. \<not> keepOnRemove c) (rev cs))),
       touched := foldl felte_unset (touched s)
                  (map getPathFromDataset (filter (\<lambda>c. \<not> keepOnRemove c) (rev cs))),
       data := foldl felte_unset (data s)
                  (map getPathFromDataset (filter (\<lambda>c. \<not> keepOnRemove c) (rev cs)))\<rparr>"
  unfolding unsetTaggedForRemove_def by (rule unsetControls_trees)

lemma unsetTaggedForRemove_kept:
  "list_all keepOnRemove cs \<Longrightarrow> unsetTaggedForRemove cs s = s"
  by (simp add: unsetTaggedForRemove_trees list_all_iff filter_empty_conv[THEN iffD2])


text \<open>
  A record that only removes one element with controls: the extenders are created again
  and the controls are handed to \<^verbatim>\<open>unsetTaggedForRemove\<close>.
\<close>

lemma mutationCallback_removed_only:
  assumes "m_type m = ChildList" and "m_addedNodes m = []"
    and "m_removedNodes m = [ElementNode el cs]" and "cs \<noteq> []"
  shows "fst (mutationCallback extender node [m] (s, calls)) =
           unsetTaggedForRemove cs
             (s\<lparr>currentExtenders := map (\<lambda>factory. factory UPDATE node) extender\<rparr>)"
  using assms
  by (simp add: mutationCallback_def mutationStep_def remountExtenders_def Let_def)

text \<open>
  A record whose added nodes bring no control ends at the \<^verbatim>\<open>continue\<close> of line 352,
  whatever it removes.
\<close>

lemma mutationCallback_continue:
  assumes "m_type m = ChildList" and "m_addedNodes m \<noteq> []"
    and "\<not> shouldUpdate (m_addedNodes m)"
  shows "mutationCallback extender node [m] w = w"
  using assms by (simp add: mutationCallback_def mutationStep_def)

text \<open>
  C6. By the specification, when a removed node contains form controls, the path of each
  control without a keep-on-remove marker is unset from the data, touched, errors and
  warnings trees. The code does not do so for every record: one record that adds a text
  node and removes an element holding the control \<open>email\<close>, which has no marker, leaves
  the four trees and the extenders as they were, and \<open>email\<close> still reads its value.
  The same record without the added text node unsets \<open>email\<close> from the four trees.
\<close>

theorem mutationCallback_skips_removed_controls:
  "keepOnRemove (control ''text'' ''email'' ''ada@example.org'' False) = False
   \<and> mutationCallback [exExtender] (exForm [control ''text'' ''name'' ''Ada'' False])
       [\<lparr>m_type = ChildList, m_addedNodes = [TextNode],
         m_removedNodes =
           [ElementNode wrapper [control ''text'' ''email'' ''ada@example.org'' False]]\<rparr>]
       (filled, []) = (filled, [])
   \<and> felte_get (data filled)
       (getPathFromDataset (control ''text'' ''email'' ''ada@example.org'' False)) =
       VStr ''ada@example.org''
   \<and> fst (mutationCallback [exExtender] (exForm [control ''text'' ''name'' ''Ada'' False])
       [\<lparr>m_type = ChildList, m_addedNodes = [],
         m_removedNodes =
           [ElementNode wrapper [control ''text'' ''email'' ''ada@example.org'' False]]\<rparr>]
       (filled, [])) =
       filled\<lparr>data := VObj [(''name'', VStr ''Ada'')], errors := VObj [], warnings := VObj [],
              touched := VObj [(''name'', VBool True)],
              currentExtenders := [\<lparr>h_id = 9, h_onSubmitError = True, h_destroy = True\<rparr>]\<rparr>"
  by (simp add: mutation_defs dom_defs ex_defs Let_def)













end
